theory Spec2Isabelle
  imports Complex_Main
begin

section \<open>ASTER TIR processing: radiometric conversion and zonal statistics\<close>

text \<open>
  A shallow embedding of the notebook \<^verbatim>\<open>aster_processing.ipynb\<close>: the two conversion
  functions \<^verbatim>\<open>tir_dn2rad\<close> and \<^verbatim>\<open>tir_rad2tb\<close>, the aggregation \<^verbatim>\<open>zonal_stats\<close> and the
  filename scan \<^verbatim>\<open>aster_timestamps\<close>.

  Numbers. A float64 is a value of \<open>npfloat\<close>: NaN, one of the two infinities, or a finite
  number \<open>Fin r\<close> with \<open>r\<close> a real. The special values follow IEEE 754 as numpy applies it
  (division by zero gives an infinity, the logarithm of a negative number is NaN, NaN
  propagates, NaN is different from everything). Arithmetic on finite numbers is exact:
  rounding, overflow to infinity and the sign of zero are not modelled, and a zero is the
  positive zero, which is the only zero that \<^verbatim>\<open>DN - 1.\<close> produces. Where a property
  depends on how close two results are, exact arithmetic is not the code: for the order of
  the temperatures \<^verbatim>\<open>tir_rad2tb\<close> is given a second time, as \<open>tir_rad2tb_f64\<close>, with the
  overflow of float64 written out and its rounding as a parameter.
\<close>

subsection \<open>Floating-point values\<close>

datatype npfloat = NaN | PInf | NInf | Fin real

fun is_nan :: "npfloat \<Rightarrow> bool" where
  "is_nan NaN = True"
| "is_nan _ = False"

fun np_neg :: "npfloat \<Rightarrow> npfloat" where
  "np_neg NaN = NaN"
| "np_neg PInf = NInf"
| "np_neg NInf = PInf"
| "np_neg (Fin a) = Fin (- a)"

fun np_add :: "npfloat \<Rightarrow> npfloat \<Rightarrow> npfloat" where
  "np_add NaN _ = NaN"
| "np_add _ NaN = NaN"
| "np_add PInf NInf = NaN"
| "np_add NInf PInf = NaN"
| "np_add PInf _ = PInf"
| "np_add NInf _ = NInf"
| "np_add (Fin a) PInf = PInf"
| "np_add (Fin a) NInf = NInf"
| "np_add (Fin a) (Fin b) = Fin (a + b)"

definition np_sub :: "npfloat \<Rightarrow> npfloat \<Rightarrow> npfloat" where
  "np_sub x y = np_add x (np_neg y)"

text \<open>The sign of a product with an infinity; a zero times an infinity is NaN.\<close>

definition inf_signed :: "real \<Rightarrow> npfloat" where
  "inf_signed s = (if s = 0 then NaN else if 0 < s then PInf else NInf)"

fun np_mul :: "npfloat \<Rightarrow> npfloat \<Rightarrow> npfloat" where
  "np_mul NaN _ = NaN"
| "np_mul _ NaN = NaN"
| "np_mul PInf PInf = PInf"
| "np_mul PInf NInf = NInf"
| "np_mul NInf PInf = NInf"
| "np_mul NInf NInf = PInf"
| "np_mul PInf (Fin b) = inf_signed b"
| "np_mul NInf (Fin b) = inf_signed (- b)"
| "np_mul (Fin a) PInf = inf_signed a"
| "np_mul (Fin a) NInf = inf_signed (- a)"
| "np_mul (Fin a) (Fin b) = Fin (a * b)"

text \<open>
  numpy's true division. A finite nonzero number over zero is an infinity (with a
  RuntimeWarning, which is not an exception), zero over zero is NaN, a finite number over
  an infinity is zero, an infinity over an infinity is NaN.
\<close>

fun np_div :: "npfloat \<Rightarrow> npfloat \<Rightarrow> npfloat" where
  "np_div NaN _ = NaN"
| "np_div _ NaN = NaN"
| "np_div (Fin a) (Fin b) = (if b = 0 then inf_signed a else Fin (a / b))"
| "np_div (Fin a) PInf = Fin 0"
| "np_div (Fin a) NInf = Fin 0"
| "np_div PInf (Fin b) = (if 0 \<le> b then PInf else NInf)"
| "np_div NInf (Fin b) = (if 0 \<le> b then NInf else PInf)"
| "np_div PInf PInf = NaN"
| "np_div PInf NInf = NaN"
| "np_div NInf PInf = NaN"
| "np_div NInf NInf = NaN"

text \<open>\<^verbatim>\<open>np.log\<close>: NaN below zero, minus infinity at zero.\<close>

fun np_log :: "npfloat \<Rightarrow> npfloat" where
  "np_log NaN = NaN"
| "np_log PInf = PInf"
| "np_log NInf = NaN"
| "np_log (Fin a) = (if a < 0 then NaN else if a = 0 then NInf else Fin (ln a))"

fun np_sqrt :: "npfloat \<Rightarrow> npfloat" where
  "np_sqrt NaN = NaN"
| "np_sqrt PInf = PInf"
| "np_sqrt NInf = NaN"
| "np_sqrt (Fin a) = (if a < 0 then NaN else Fin (sqrt a))"

text \<open>\<^verbatim>\<open>np.maximum\<close> and \<^verbatim>\<open>np.minimum\<close>, the reductions behind \<^verbatim>\<open>max()\<close> and \<^verbatim>\<open>min()\<close>: NaN wins.\<close>

fun np_le :: "npfloat \<Rightarrow> npfloat \<Rightarrow> bool" where
  "np_le NaN _ = False"
| "np_le _ NaN = False"
| "np_le NInf _ = True"
| "np_le _ PInf = True"
| "np_le PInf _ = False"
| "np_le _ NInf = False"
| "np_le (Fin a) (Fin b) = (a \<le> b)"

definition np_maximum :: "npfloat \<Rightarrow> npfloat \<Rightarrow> npfloat" where
  "np_maximum x y = (if is_nan x then x else if is_nan y then y else if np_le x y then y else x)"

definition np_minimum :: "npfloat \<Rightarrow> npfloat \<Rightarrow> npfloat" where
  "np_minimum x y = (if is_nan x then x else if is_nan y then y else if np_le x y then x else y)"

subsection \<open>Python values and exceptions\<close>

datatype pyerror =
    IndexError
  | ZeroDivisionError
  | ValueError
  | AttributeError
  | AssertionError string
  | IOFailure

text \<open>
  An n-dimensional array: its shape and its entries in row-major order, which is the order
  \<^verbatim>\<open>flatten()\<close> returns them in.
\<close>

record 'a ndarray =
  shape :: "nat list"
  entries :: "'a list"

text \<open>
  The arguments the conversion functions are called with: a Python float, a numpy float64
  scalar, or an array of float64.
\<close>

datatype pyval = PyFloat npfloat | NpFloat64 npfloat | NdArray "npfloat ndarray"

text \<open>An elementwise operation keeps the kind and the shape of its argument.\<close>

fun val_map :: "(npfloat \<Rightarrow> npfloat) \<Rightarrow> pyval \<Rightarrow> pyval" where
  "val_map f (PyFloat x) = PyFloat (f x)"
| "val_map f (NpFloat64 x) = NpFloat64 (f x)"
| "val_map f (NdArray a) = NdArray (a\<lparr>entries := map f (entries a)\<rparr>)"

fun val_entries :: "pyval \<Rightarrow> npfloat list" where
  "val_entries (PyFloat x) = [x]"
| "val_entries (NpFloat64 x) = [x]"
| "val_entries (NdArray a) = entries a"

fun val_shape :: "pyval \<Rightarrow> nat list" where
  "val_shape (PyFloat x) = []"
| "val_shape (NpFloat64 x) = []"
| "val_shape (NdArray a) = shape a"

text \<open>A numpy function applied to a Python float returns a numpy scalar.\<close>

fun np_ufunc :: "(npfloat \<Rightarrow> npfloat) \<Rightarrow> pyval \<Rightarrow> pyval" where
  "np_ufunc f (PyFloat x) = NpFloat64 (f x)"
| "np_ufunc f v = val_map f v"

text \<open>
  \<^verbatim>\<open>c / v\<close> with \<open>c\<close> a Python float. Between two Python floats a zero divisor raises
  ZeroDivisionError; as soon as \<open>v\<close> is a numpy value the division is numpy's.
\<close>

fun py_rtruediv :: "real \<Rightarrow> pyval \<Rightarrow> pyerror + pyval" where
  "py_rtruediv c (PyFloat x) =
     (if x = Fin 0 then Inl ZeroDivisionError else Inr (PyFloat (np_div (Fin c) x)))"
| "py_rtruediv c v = Inr (val_map (np_div (Fin c)) v)"

text \<open>
  \<^verbatim>\<open>xs[i]\<close> on a Python list: a negative index counts from the end, and an index outside
  \<open>-len .. len - 1\<close> raises IndexError.
\<close>

definition py_getitem :: "'a list \<Rightarrow> int \<Rightarrow> pyerror + 'a" where
  "py_getitem xs i =
     (if 0 \<le> i \<and> i < int (length xs) then Inr (xs ! nat i)
      else if i < 0 \<and> - int (length xs) \<le> i then Inr (xs ! nat (int (length xs) + i))
      else Inl IndexError)"

text \<open>Sequencing of statements that may raise.\<close>

definition and_then :: "pyerror + 'a \<Rightarrow> ('a \<Rightarrow> pyerror + 'b) \<Rightarrow> pyerror + 'b" where
  "and_then r f = (case r of Inl e \<Rightarrow> Inl e | Inr x \<Rightarrow> f x)"

subsection \<open>The conversion functions\<close>

definition ucc :: "real list" where
  "ucc = [6.822 / 10 ^ 3, 6.780 / 10 ^ 3, 6.590 / 10 ^ 3, 5.693 / 10 ^ 3, 5.225 / 10 ^ 3]"

definition k1 :: "real list" where
  "k1 = [3047.47, 2480.93, 1930.80, 865.65, 649.60]"

definition k2 :: "real list" where
  "k2 = [1736.18, 1666.21, 1584.72, 1349.82, 1274.49]"

text \<open>
  \<^verbatim>\<open>rad = (DN-1.) * ucc[band-10]\<close>
\<close>

definition tir_dn2rad :: "pyval \<Rightarrow> int \<Rightarrow> pyerror + pyval" where
  "tir_dn2rad DN band =
     and_then (py_getitem ucc (band - 10)) (\<lambda>u.
       Inr (val_map (\<lambda>x. np_mul (np_sub x (Fin 1)) (Fin u)) DN))"

text \<open>
  \<^verbatim>\<open>tb = k2[band-10] /  np.log((k1[band-10]/rad) + 1)\<close>
\<close>

definition tir_rad2tb :: "pyval \<Rightarrow> int \<Rightarrow> pyerror + pyval" where
  "tir_rad2tb rad band =
     and_then (py_getitem k2 (band - 10)) (\<lambda>c2.
     and_then (py_getitem k1 (band - 10)) (\<lambda>c1.
     and_then (py_rtruediv c1 rad) (\<lambda>q.
       Inr (val_map (np_div (Fin c2))
              (np_ufunc np_log (val_map (\<lambda>x. np_add x (Fin 1)) q))))))"

subsection \<open>Array operations used by the aggregation\<close>

text \<open>\<^verbatim>\<open>a.astype('float64')\<close> on an array of integer digital numbers.\<close>

definition astype_float64 :: "int ndarray \<Rightarrow> npfloat ndarray" where
  "astype_float64 a = \<lparr>shape = shape a, entries = map (\<lambda>d. Fin (of_int d)) (entries a)\<rparr>"

text \<open>\<^verbatim>\<open>a[a==0] = np.nan\<close>\<close>

definition fill_zero_nan :: "npfloat ndarray \<Rightarrow> npfloat ndarray" where
  "fill_zero_nan a = a\<lparr>entries := map (\<lambda>x. if x = Fin 0 then NaN else x) (entries a)\<rparr>"

text \<open>\<^verbatim>\<open>a.squeeze()\<close> with no axis argument removes every axis of length one.\<close>

definition squeeze :: "'a ndarray \<Rightarrow> 'a ndarray" where
  "squeeze a = a\<lparr>shape := filter (\<lambda>d. d \<noteq> 1) (shape a)\<rparr>"

text \<open>
  \<^verbatim>\<open>.squeeze()\<close> on what \<^verbatim>\<open>tir_rad2tb\<close> returned: a numpy scalar is its own squeeze, a
  Python float has no such method.
\<close>

fun val_squeeze :: "pyval \<Rightarrow> pyerror + npfloat ndarray" where
  "val_squeeze (NdArray a) = Inr (squeeze a)"
| "val_squeeze (NpFloat64 x) = Inr \<lparr>shape = [], entries = [x]\<rparr>"
| "val_squeeze (PyFloat x) = Inl AttributeError"

text \<open>\<^verbatim>\<open>a.flatten()\<close>: the entries as a one-dimensional population.\<close>

definition flatten :: "'a ndarray \<Rightarrow> 'a list" where
  "flatten a = entries a"

text \<open>\<^verbatim>\<open>values[~np.isnan(values)]\<close>\<close>

definition drop_nan :: "npfloat list \<Rightarrow> npfloat list" where
  "drop_nan values = filter (\<lambda>x. \<not> is_nan x) values"

text \<open>
  The reductions. The mean (and so the standard deviation) of an empty array is NaN with
  a warning; \<^verbatim>\<open>max()\<close> and \<^verbatim>\<open>min()\<close> of an empty array raise ValueError.
\<close>

definition np_sum :: "npfloat list \<Rightarrow> npfloat" where
  "np_sum xs = foldl np_add (Fin 0) xs"

definition np_mean :: "npfloat list \<Rightarrow> npfloat" where
  "np_mean xs = np_div (np_sum xs) (Fin (real (length xs)))"

definition np_max :: "npfloat list \<Rightarrow> pyerror + npfloat" where
  "np_max xs = (case xs of [] \<Rightarrow> Inl ValueError | x # r \<Rightarrow> Inr (foldl np_maximum x r))"

definition np_min :: "npfloat list \<Rightarrow> pyerror + npfloat" where
  "np_min xs = (case xs of [] \<Rightarrow> Inl ValueError | x # r \<Rightarrow> Inr (foldl np_minimum x r))"

definition np_std :: "npfloat list \<Rightarrow> npfloat" where
  "np_std xs =
     (let m = np_mean xs
      in np_sqrt (np_mean (map (\<lambda>x. np_mul (np_sub x m) (np_sub x m)) xs)))"

subsection \<open>Zonal statistics\<close>

text \<open>
  What the file and library calls of \<^verbatim>\<open>zonal_stats\<close> did, which is all that the two path
  arguments decide: \<^verbatim>\<open>rio.open\<close>, \<^verbatim>\<open>gpd.read_file\<close>, \<^verbatim>\<open>to_crs\<close> or \<^verbatim>\<open>mask\<close> raised something
  that is not a ValueError caught by the first handler (\<open>IORaises\<close>); \<^verbatim>\<open>mask\<close> raised
  ValueError, which is what rasterio does with \<^verbatim>\<open>crop=True\<close> when the shapes do not overlap
  the raster (\<open>MaskValueError\<close>); or \<^verbatim>\<open>mask\<close> returned the clipped array of digital
  numbers, of shape (bands, rows, columns), with 0 written into the pixels outside the
  shapes (\<open>Masked\<close>).
\<close>

datatype raster_io = IORaises | MaskValueError | Masked "int ndarray"

text \<open>What \<^verbatim>\<open>zonal_stats\<close> returns: \<^verbatim>\<open>None\<close>, a 4-tuple or a 5-tuple.\<close>

datatype zs_return =
    ReturnNone
  | Return4 npfloat npfloat npfloat npfloat
  | Return5 npfloat npfloat npfloat npfloat "npfloat ndarray"

text \<open>
  From the clipped digital numbers to the temperature grid \<^verbatim>\<open>masked_aster_band_tb\<close> as it
  is after \<^verbatim>\<open>squeeze()\<close>.
\<close>

definition zonal_tb :: "int ndarray \<Rightarrow> int \<Rightarrow> pyerror + npfloat ndarray" where
  "zonal_tb masked_aster_band_DN aster_band =
     and_then (tir_dn2rad (NdArray (fill_zero_nan (astype_float64 masked_aster_band_DN))) aster_band)
       (\<lambda>masked_aster_band_rad.
     and_then (tir_rad2tb masked_aster_band_rad aster_band)
       (\<lambda>masked_aster_band_tb. val_squeeze masked_aster_band_tb))"

text \<open>The population \<^verbatim>\<open>values\<close> the statistics are computed over.\<close>

definition zonal_values :: "int ndarray \<Rightarrow> int \<Rightarrow> pyerror + npfloat list" where
  "zonal_values masked_aster_band_DN aster_band =
     and_then (zonal_tb masked_aster_band_DN aster_band) (\<lambda>tb. Inr (drop_nan (flatten tb)))"

text \<open>The body of the second \<^verbatim>\<open>try\<close>: mean, max, min, std in this order.\<close>

definition statistics :: "npfloat list \<Rightarrow> pyerror + (npfloat \<times> npfloat \<times> npfloat \<times> npfloat)" where
  "statistics values =
     (let mean = np_mean values
      in and_then (np_max values) (\<lambda>mx.
         and_then (np_min values) (\<lambda>mn.
           Inr (mean, mx, mn, np_std values))))"

text \<open>
  The second \<^verbatim>\<open>try\<close> with its handler, which catches ValueError only, and the final
  \<^verbatim>\<open>return\<close>.
\<close>

definition summarise :: "npfloat ndarray \<Rightarrow> npfloat list \<Rightarrow> bool \<Rightarrow> pyerror + zs_return" where
  "summarise masked_aster_band_tb values return_masked_array =
     (case statistics values of
        Inl ValueError \<Rightarrow> Inr ReturnNone
      | Inl e \<Rightarrow> Inl e
      | Inr (mean, mx, mn, std) \<Rightarrow>
          if return_masked_array
          then Inr (Return5 mean mx mn std masked_aster_band_tb)
          else Inr (Return4 mean mx mn std))"

definition zonal_stats :: "raster_io \<Rightarrow> int \<Rightarrow> bool \<Rightarrow> pyerror + zs_return" where
  "zonal_stats io aster_band return_masked_array =
     (case io of
        IORaises \<Rightarrow> Inl IOFailure
      | MaskValueError \<Rightarrow> Inr ReturnNone
      | Masked masked_aster_band_DN \<Rightarrow>
          and_then (zonal_tb masked_aster_band_DN aster_band) (\<lambda>masked_aster_band_tb.
            summarise masked_aster_band_tb (drop_nan (flatten masked_aster_band_tb))
              return_masked_array))"

subsection \<open>Timestamps from file names\<close>

text \<open>\<^verbatim>\<open>s.split(sep)\<close> with a separator of one character.\<close>

fun py_split :: "char \<Rightarrow> string \<Rightarrow> string list" where
  "py_split sep [] = [[]]"
| "py_split sep (c # cs) =
     (if c = sep then [] # py_split sep cs
      else (case py_split sep cs of [] \<Rightarrow> [[c]] | w # ws \<Rightarrow> (c # w) # ws))"

text \<open>\<^verbatim>\<open>s[i:j]\<close> for \<open>0 \<le> i \<le> j\<close>; a slice never raises.\<close>

definition py_slice :: "string \<Rightarrow> nat \<Rightarrow> nat \<Rightarrow> string" where
  "py_slice s i j = take (j - i) (drop i s)"

text \<open>The string handed to \<^verbatim>\<open>pd.Timestamp\<close> for one file path.\<close>

definition timestamp_string :: "string \<Rightarrow> pyerror + string" where
  "timestamp_string fpath =
     and_then (py_getitem (py_split CHR ''/'' fpath) (- 1)) (\<lambda>fn.
     and_then (py_getitem (py_split CHR ''_'' fn) 2) (\<lambda>tok.
       (let MM = py_slice tok 3 5; DD = py_slice tok 5 7; YYYY = py_slice tok 7 11;
            hh = py_slice tok 11 13; mm = py_slice tok 13 15; ss = py_slice tok 15 17
        in Inr (YYYY @ ''-'' @ MM @ ''-'' @ DD @ '' '' @ hh @ '':'' @ mm @ '':'' @ ss))))"

text \<open>
  The libraries and the file system the function talks to: \<^verbatim>\<open>glob.glob\<close> with
  \<^verbatim>\<open>recursive=True\<close>, \<^verbatim>\<open>pd.Timestamp\<close> with \<^verbatim>\<open>tz='UTC'\<close> (\<open>None\<close> when it raises ValueError)
  and the sort of the data frame by its timestamp column.
\<close>

record 'ts libraries =
  glob :: "string \<Rightarrow> string list"
  Timestamp :: "string \<Rightarrow> 'ts option"
  sort_values :: "('ts \<times> string) list \<Rightarrow> ('ts \<times> string) list"

fun read_timestamps :: "(string \<Rightarrow> 'ts option) \<Rightarrow> string list \<Rightarrow> pyerror + 'ts list" where
  "read_timestamps ts [] = Inr []"
| "read_timestamps ts (fpath # rest) =
     and_then (timestamp_string fpath) (\<lambda>s.
       (case ts s of
          None \<Rightarrow> Inl ValueError
        | Some t \<Rightarrow> and_then (read_timestamps ts rest) (\<lambda>r. Inr (t # r))))"

text \<open>
  The result is a pair: the search patterns given to \<^verbatim>\<open>glob.glob\<close>, in order (the scans of
  the file system the call made), and what the call raised or the rows of the data frame
  it returned.
\<close>

definition aster_timestamps ::
  "'ts libraries \<Rightarrow> string \<Rightarrow> string \<Rightarrow> string list \<times> (pyerror + ('ts \<times> string) list)" where
  "aster_timestamps lib directory ext =
     (if ext = ''hdf'' \<or> ext = ''tif''
      then (let search_path = directory @ ''/**/*.'' @ ext;
                aster_files = glob lib search_path
            in ([search_path],
                and_then (read_timestamps (Timestamp lib) aster_files) (\<lambda>aster_timestamps_UTC.
                  Inr (sort_values lib (zip aster_timestamps_UTC aster_files)))))
      else ([], Inl (AssertionError ''File extension must be either hdf or tif'')))"

subsection \<open>The calibration tables and the formula as the specification states them\<close>

definition tir_bands :: "int set" where
  "tir_bands = {10, 11, 12, 13, 14}"

definition spec_ucc :: "int \<Rightarrow> real" where
  "spec_ucc b =
     (if b = 10 then 6.822 / 10 ^ 3 else if b = 11 then 6.780 / 10 ^ 3
      else if b = 12 then 6.590 / 10 ^ 3 else if b = 13 then 5.693 / 10 ^ 3
      else 5.225 / 10 ^ 3)"

definition spec_K1 :: "int \<Rightarrow> real" where
  "spec_K1 b =
     (if b = 10 then 3047.47 else if b = 11 then 2480.93 else if b = 12 then 1930.80
      else if b = 13 then 865.65 else 649.60)"

definition spec_K2 :: "int \<Rightarrow> real" where
  "spec_K2 b =
     (if b = 10 then 1736.18 else if b = 11 then 1666.21 else if b = 12 then 1584.72
      else if b = 13 then 1349.82 else 1274.49)"

text \<open>\<open>Tb = K2[band] / ln(K1[band]/radiance + 1)\<close>\<close>

definition spec_tb :: "int \<Rightarrow> real \<Rightarrow> real" where
  "spec_tb b rad = spec_K2 b / ln (spec_K1 b / rad + 1)"



text \<open>The positions of a flattened grid whose value is kept in the population.\<close>

definition valid_indices :: "npfloat list \<Rightarrow> nat list" where
  "valid_indices xs = filter (\<lambda>i. \<not> is_nan (xs ! i)) [0..<length xs]"

text \<open>
  What lines 120 to 127 of the notebook do to one digital number of the clipped grid: the
  conversion to float64, the replacement of 0 by NaN and the two conversions, with the
  coefficients of the band.
\<close>

definition pixel_tb :: "int \<Rightarrow> int \<Rightarrow> npfloat" where
  "pixel_tb band d =
     np_div (Fin (spec_K2 band))
       (np_log (np_add
          (np_div (Fin (spec_K1 band))
             (np_mul (np_sub (if d = 0 then NaN else Fin (real_of_int d)) (Fin 1))
                (Fin (spec_ucc band))))
          (Fin 1)))"

subsection \<open>The raster, the zone and the clipped window\<close>

text \<open>
  The opened raster: the number of bands, the height and the width in pixels, and the
  digital number of each band, row and column. It declares no nodata value, so that the
  fill value of \<^verbatim>\<open>mask\<close> is 0.
\<close>

record raster =
  raster_count :: nat
  raster_height :: nat
  raster_width :: nat
  raster_dn :: "nat \<Rightarrow> int \<Rightarrow> int \<Rightarrow> int"

text \<open>
  The zone after \<^verbatim>\<open>to_crs\<close>, on the pixel grid of the raster, where rows and columns also
  run outside the raster: the window of pixel rows and columns that the extent of its
  shapes spans (first row, row after the last, first column, column after the last;
  \<open>None\<close> when the file has no shapes), and the pixels that some shape touches.
\<close>

record zone =
  zone_window :: "(int \<times> int \<times> int \<times> int) option"
  touches :: "int \<Rightarrow> int \<Rightarrow> bool"

text \<open>
  Modelled from the spec: \<^verbatim>\<open>rasterio.mask.mask\<close> with \<^verbatim>\<open>crop=True\<close>, \<^verbatim>\<open>all_touched=True\<close> and
  \<^verbatim>\<open>filled=True\<close>, a library call whose code is not in the notebook. Step 3 of the
  aggregator: the raster is cropped to the extent of the geometry, every pixel a shape
  touches keeps its digital number and every other pixel is filled with 0. The extent of
  the shapes is intersected with the raster; when nothing is left, or there is no shape,
  the call raises ValueError (the comment of the first handler: "ValueError when shape
  doesn't overlap raster").
\<close>

definition clip_window :: "raster \<Rightarrow> zone \<Rightarrow> (int \<times> int \<times> int \<times> int) option" where
  "clip_window src z =
     (case zone_window z of
        None \<Rightarrow> None
      | Some (row_start, row_stop, col_start, col_stop) \<Rightarrow>
          (let r0 = max 0 row_start; r1 = min (int (raster_height src)) row_stop;
               c0 = max 0 col_start; c1 = min (int (raster_width src)) col_stop
           in if r0 < r1 \<and> c0 < c1 then Some (r0, r1, c0, c1) else None))"

definition mask_crop :: "raster \<Rightarrow> zone \<Rightarrow> pyerror + int ndarray" where
  "mask_crop src z =
     (case clip_window src z of
        None \<Rightarrow> Inl ValueError
      | Some (r0, r1, c0, c1) \<Rightarrow>
          Inr \<lparr>shape = [raster_count src, nat (r1 - r0), nat (c1 - c0)],
               entries =
                 concat (map (\<lambda>b.
                   concat (map (\<lambda>r.
                     map (\<lambda>c. if touches z r c then raster_dn src b r c else 0) [c0..c1 - 1])
                   [r0..r1 - 1]))
                 [0..<raster_count src])\<rparr>)"

text \<open>
  The first \<^verbatim>\<open>try\<close> of \<^verbatim>\<open>zonal_stats\<close> once both files are read and the zone is reprojected:
  what the call of \<^verbatim>\<open>mask\<close> did.
\<close>

definition masked_io :: "raster \<Rightarrow> zone \<Rightarrow> raster_io" where
  "masked_io src z =
     (case mask_crop src z of
        Inl ValueError \<Rightarrow> MaskValueError
      | Inl e \<Rightarrow> IORaises
      | Inr masked_aster_band_DN \<Rightarrow> Masked masked_aster_band_DN)"

text \<open>The zone does not intersect the raster: no shape touches a pixel of the raster.\<close>

definition zone_outside :: "raster \<Rightarrow> zone \<Rightarrow> bool" where
  "zone_outside src z =
     list_all (\<lambda>r. list_all (\<lambda>c. \<not> touches z r c) [0..int (raster_width src) - 1])
       [0..int (raster_height src) - 1]"

subsection \<open>The temperature conversion in float64\<close>

text \<open>
  How a float64 operation turns its exact result into a float64. In the range of float64
  the result is rounded: the rounding of the arithmetic operations and of decimal literals
  (\<open>rnd\<close>, in the code round-to-nearest) and that of \<^verbatim>\<open>np.log\<close> (\<open>rnd_log\<close>, that of the
  mathematical library) are parameters. From \<open>2^1024 - 2^970\<close> on in magnitude, which is
  half a unit in the last place above the largest float64, round-to-nearest gives an
  infinity.
\<close>

record rounding =
  rnd :: "real \<Rightarrow> real"
  rnd_log :: "real \<Rightarrow> real"

definition float64_overflow :: real where
  "float64_overflow = 2 ^ 1024 - 2 ^ 970"

fun to_float64 :: "rounding \<Rightarrow> npfloat \<Rightarrow> npfloat" where
  "to_float64 fp (Fin q) = (if float64_overflow \<le> \<bar>q\<bar> then inf_signed q else Fin (rnd fp q))"
| "to_float64 fp x = x"

definition log_float64 :: "rounding \<Rightarrow> npfloat \<Rightarrow> npfloat" where
  "log_float64 fp x = (case np_log x of Fin l \<Rightarrow> Fin (rnd_log fp l) | s \<Rightarrow> s)"

text \<open>
  \<^verbatim>\<open>c / v\<close> as in \<open>py_rtruediv\<close>; the quotient of two Python floats overflows to an
  infinity as numpy's does, without an exception.
\<close>

fun py_rtruediv_f64 :: "rounding \<Rightarrow> real \<Rightarrow> pyval \<Rightarrow> pyerror + pyval" where
  "py_rtruediv_f64 fp c (PyFloat x) =
     (if x = Fin 0 then Inl ZeroDivisionError
      else Inr (PyFloat (to_float64 fp (np_div (Fin c) x))))"
| "py_rtruediv_f64 fp c v = Inr (val_map (\<lambda>x. to_float64 fp (np_div (Fin c) x)) v)"

text \<open>
  \<^verbatim>\<open>tb = k2[band-10] /  np.log((k1[band-10]/rad) + 1)\<close>, each operation with its float64
  result; the lists hold the float64 values of the decimal literals.
\<close>

definition tir_rad2tb_f64 :: "rounding \<Rightarrow> pyval \<Rightarrow> int \<Rightarrow> pyerror + pyval" where
  "tir_rad2tb_f64 fp rad band =
     and_then (py_getitem (map (rnd fp) k2) (band - 10)) (\<lambda>c2.
     and_then (py_getitem (map (rnd fp) k1) (band - 10)) (\<lambda>c1.
     and_then (py_rtruediv_f64 fp c1 rad) (\<lambda>q.
       Inr (val_map (\<lambda>l. to_float64 fp (np_div (Fin c2) l))
              (np_ufunc (log_float64 fp)
                 (val_map (\<lambda>x. to_float64 fp (np_add x (Fin 1))) q))))))"

text \<open>The rounding that changes nothing, for evaluating where no result is rounded.\<close>

definition exact_rounding :: rounding where
  "exact_rounding = \<lparr>rnd = (\<lambda>x. x), rnd_log = (\<lambda>x. x)\<rparr>"

section \<open>Properties\<close>

subsection \<open>Auxiliary facts\<close>

lemma and_then_Inr [simp]: "and_then (Inr x) f = f x"
  by (simp add: and_then_def)

lemma and_then_Inl [simp]: "and_then (Inl e) f = Inl e"
  by (simp add: and_then_def)

lemma getitem_ucc: "band \<in> tir_bands \<Longrightarrow> py_getitem ucc (band - 10) = Inr (spec_ucc band)"
  by (auto simp: tir_bands_def py_getitem_def ucc_def spec_ucc_def)

lemma getitem_k1: "band \<in> tir_bands \<Longrightarrow> py_getitem k1 (band - 10) = Inr (spec_K1 band)"
  by (auto simp: tir_bands_def py_getitem_def k1_def spec_K1_def)

lemma getitem_k2: "band \<in> tir_bands \<Longrightarrow> py_getitem k2 (band - 10) = Inr (spec_K2 band)"
  by (auto simp: tir_bands_def py_getitem_def k2_def spec_K2_def)

lemma spec_K1_pos: "0 < spec_K1 b"
  by (simp add: spec_K1_def)

lemma spec_K2_pos: "0 < spec_K2 b"
  by (simp add: spec_K2_def)

lemma spec_ucc_pos: "0 < spec_ucc b"
  by (simp add: spec_ucc_def)

text \<open>One entry through the temperature formula, for a positive radiance.\<close>

lemma rad2tb_entry:
  assumes "0 < r"
  shows "np_div (Fin (spec_K2 b)) (np_log (np_add (np_div (Fin (spec_K1 b)) (Fin r)) (Fin 1)))
           = Fin (spec_tb b r)"
proof -
  have q: "0 < spec_K1 b / r" using assms spec_K1_pos[of b] by simp
  have d: "np_div (Fin (spec_K1 b)) (Fin r) = Fin (spec_K1 b / r)"
    using assms by simp
  have "0 < ln (spec_K1 b / r + 1)" using q by simp
  then have l: "np_div (Fin (spec_K2 b)) (Fin (ln (spec_K1 b / r + 1))) = Fin (spec_tb b r)"
    by (simp add: spec_tb_def)
  have "np_log (Fin (spec_K1 b / r + 1)) = Fin (ln (spec_K1 b / r + 1))"
    using q by (simp add: less_le_not_le add_nonneg_eq_0_iff)
  then show ?thesis using l by (simp only: d np_add.simps)
qed


lemma spec_tb_mono:
  assumes "0 < r1" "r1 < r2"
  shows "spec_tb b r1 < spec_tb b r2"
proof -
  have r2: "0 < r2" using assms by simp
  have "spec_K1 b / r2 < spec_K1 b / r1"
    using assms spec_K1_pos[of b] by (simp add: divide_strict_left_mono)
  moreover have "0 < spec_K1 b / r2" using r2 spec_K1_pos by simp
  ultimately have "0 < ln (spec_K1 b / r2 + 1)"
      and "ln (spec_K1 b / r2 + 1) < ln (spec_K1 b / r1 + 1)"
    by simp_all
  then show ?thesis
    unfolding spec_tb_def using spec_K2_pos[of b]
    by (simp add: divide_strict_left_mono)
qed

subsection \<open>Digital number to radiance\<close>

text \<open>
  C1. For a band in 10..14, \<^verbatim>\<open>tir_dn2rad(DN, band)\<close> returns \<open>(DN - 1) * ucc[band]\<close> with
  \<open>ucc\<close> the table of the specification, entry by entry when \<open>DN\<close> is a grid and whatever
  float \<open>DN\<close> holds; on finite numbers this is the real number \<open>(d - 1) * ucc[band]\<close>, and
  \<^verbatim>\<open>tir_dn2rad(1, band)\<close> is 0. The function is a function of its two arguments only: it
  reads and writes no state.
\<close>

theorem tir_dn2rad_formula:
  assumes "band \<in> tir_bands"
  shows "tir_dn2rad DN band =
           Inr (val_map (\<lambda>x. np_mul (np_sub x (Fin 1)) (Fin (spec_ucc band))) DN)
         \<and> tir_dn2rad (PyFloat (Fin d)) band = Inr (PyFloat (Fin ((d - 1) * spec_ucc band)))
         \<and> tir_dn2rad (NdArray \<lparr>shape = sh, entries = map Fin ds\<rparr>) band =
             Inr (NdArray \<lparr>shape = sh, entries = map (\<lambda>d. Fin ((d - 1) * spec_ucc band)) ds\<rparr>)
         \<and> tir_dn2rad (PyFloat (Fin 1)) band = Inr (PyFloat (Fin 0))
         \<and> tir_dn2rad (NpFloat64 (Fin 1)) band = Inr (NpFloat64 (Fin 0))"
  using assms by (simp add: tir_dn2rad_def getitem_ucc np_sub_def)

theorem tir_dn2rad_formula_witness:
  "(13::int) \<in> tir_bands
   \<and> tir_dn2rad (NdArray \<lparr>shape = [1, 2], entries = [Fin 1, Fin 200]\<rparr>) 13 =
       Inr (NdArray \<lparr>shape = [1, 2], entries = [Fin 0, Fin (199 * (5.693 / 10 ^ 3))]\<rparr>)
   \<and> tir_dn2rad (PyFloat (Fin 200)) 13 = Inr (PyFloat (Fin (199 * (5.693 / 10 ^ 3))))
   \<and> tir_dn2rad (PyFloat (Fin 1)) 13 = Inr (PyFloat (Fin 0))"
  using tir_dn2rad_formula [of 13 "PyFloat (Fin 200)" 200 "[1, 2]" "[1, 200]"]
  by (simp add: tir_bands_def spec_ucc_def np_sub_def)

subsection \<open>Radiance to brightness temperature\<close>



subsection \<open>The temperature grid and the population\<close>

lemma filter_as_indices:
  "filter P xs = map (\<lambda>i. xs ! i) (filter (\<lambda>i. P (xs ! i)) [0..<length xs])"
proof (induction xs rule: rev_induct)
  case Nil
  then show ?case by simp
next
  case (snoc x xs)
  have "filter (\<lambda>i. P ((xs @ [x]) ! i)) [0..<length xs] = filter (\<lambda>i. P (xs ! i)) [0..<length xs]"
    by (rule filter_cong) (auto simp: nth_append)
  moreover have "map (\<lambda>i. (xs @ [x]) ! i) (filter (\<lambda>i. P (xs ! i)) [0..<length xs])
               = map (\<lambda>i. xs ! i) (filter (\<lambda>i. P (xs ! i)) [0..<length xs])"
    by (rule map_cong) (auto simp: nth_append)
  ultimately show ?case using snoc by (simp add: nth_append)
qed

lemma drop_nan_indices: "drop_nan xs = map (\<lambda>i. xs ! i) (valid_indices xs)"
  unfolding drop_nan_def valid_indices_def by (rule filter_as_indices)

lemma valid_indices_iff:
  "i \<in> set (valid_indices xs) \<longleftrightarrow> i < length xs \<and> \<not> is_nan (xs ! i)"
  by (auto simp: valid_indices_def)

text \<open>For a band of the table the grid is computed pixel by pixel and nothing raises.\<close>

lemma zonal_tb_valid:
  assumes "band \<in> tir_bands"
  shows "zonal_tb dn band =
           Inr \<lparr>shape = filter (\<lambda>d. d \<noteq> 1) (shape dn),
                 entries = map (pixel_tb band) (entries dn)\<rparr>"
  using assms
  by (simp add: zonal_tb_def tir_dn2rad_def tir_rad2tb_def getitem_ucc getitem_k1 getitem_k2
      astype_float64_def fill_zero_nan_def squeeze_def o_def pixel_tb_def)

lemma zonal_tb_length:
  "zonal_tb dn band = Inr tb \<Longrightarrow> length (entries tb) = length (entries dn)"
  by (auto simp: zonal_tb_def tir_dn2rad_def tir_rad2tb_def and_then_def astype_float64_def
      fill_zero_nan_def squeeze_def split: sum.splits)

lemma zonal_tb_zero:
  "zonal_tb dn band = Inr tb \<Longrightarrow> i < length (entries dn) \<Longrightarrow> entries dn ! i = 0
     \<Longrightarrow> entries tb ! i = NaN"
  by (auto simp: zonal_tb_def tir_dn2rad_def tir_rad2tb_def and_then_def astype_float64_def
      fill_zero_nan_def squeeze_def np_sub_def split: sum.splits)

lemma zonal_values_indices:
  "zonal_tb dn band = Inr tb \<Longrightarrow>
   zonal_values dn band = Inr (map (\<lambda>j. entries tb ! j) (valid_indices (entries tb)))"
  by (simp add: zonal_values_def flatten_def drop_nan_indices)

lemma zonal_stats_masked:
  "zonal_tb dn band = Inr tb \<Longrightarrow>
   zonal_stats (Masked dn) band flag =
     summarise tb (map (\<lambda>j. entries tb ! j) (valid_indices (entries tb))) flag"
  by (simp add: zonal_stats_def flatten_def drop_nan_indices)

lemma all_zero_population:
  assumes "zonal_tb dn band = Inr tb" and "list_all (\<lambda>d. d = 0) (entries dn)"
  shows "drop_nan (flatten tb) = []"
proof -
  have "entries tb ! i = NaN" if "i < length (entries tb)" for i
    using that assms zonal_tb_zero[OF assms(1), of i] zonal_tb_length[OF assms(1)]
    by (simp add: list_all_length)
  then show ?thesis
    by (auto simp: drop_nan_def flatten_def filter_empty_conv in_set_conv_nth)
qed

lemma empty_population_none:
  "zonal_tb dn band = Inr tb \<Longrightarrow> drop_nan (flatten tb) = []
     \<Longrightarrow> zonal_stats (Masked dn) band flag = Inr ReturnNone"
  by (simp add: zonal_stats_def summarise_def statistics_def np_max_def)

lemma pixel_tb_zero: "pixel_tb band 0 = NaN"
  by (simp add: pixel_tb_def np_sub_def)

text \<open>
  A digital number of 1 is a radiance of exactly 0: \<open>K1 / 0\<close> is plus infinity, so is its
  logarithm, and \<open>K2\<close> over it is 0.
\<close>

lemma pixel_tb_one: "pixel_tb band 1 = Fin 0"
  using spec_K1_pos[of band] by (simp add: pixel_tb_def np_sub_def inf_signed_def)

lemma pixel_tb_positive:
  assumes "1 < d"
  shows "pixel_tb band d = Fin (spec_tb band ((real_of_int d - 1) * spec_ucc band))"
proof -
  have "0 < (real_of_int d - 1) * spec_ucc band"
    using assms spec_ucc_pos[of band] by simp
  then show ?thesis
    using assms rad2tb_entry[of "(real_of_int d - 1) * spec_ucc band" band]
    by (simp add: pixel_tb_def np_sub_def)
qed

text \<open>A negative radiance above \<open>- K1\<close> makes the argument of the logarithm negative.\<close>

lemma pixel_tb_negative:
  assumes "d < 1" and "- spec_K1 band < (real_of_int d - 1) * spec_ucc band"
  shows "pixel_tb band d = NaN"
proof (cases "d = 0")
  case True
  then show ?thesis by (simp add: pixel_tb_zero)
next
  case False
  define r where "r = (real_of_int d - 1) * spec_ucc band"
  have "real_of_int d - 1 < 0" using assms(1) by simp
  then have r: "r < 0"
    unfolding r_def using spec_ucc_pos[of band] by (simp add: mult_neg_pos)
  have "spec_K1 band / r < - 1"
    using r assms(2) unfolding r_def[symmetric] by (simp add: divide_less_eq)
  then have neg: "spec_K1 band / r + 1 < 0" by simp
  have "pixel_tb band d =
          np_div (Fin (spec_K2 band))
            (np_log (np_add (np_div (Fin (spec_K1 band)) (Fin r)) (Fin 1)))"
    using False by (simp add: pixel_tb_def np_sub_def r_def)
  also have "np_div (Fin (spec_K1 band)) (Fin r) = Fin (spec_K1 band / r)"
    using r by simp
  also have "np_log (np_add (Fin (spec_K1 band / r)) (Fin 1)) = NaN"
    using neg by simp
  finally show ?thesis by simp
qed

subsection \<open>Pixels without data\<close>

text \<open>
  C5. In a clipped grid that \<^verbatim>\<open>zonal_stats\<close> processes, a pixel whose digital number is 0 is
  marked NaN before the conversions, is still NaN in the temperature grid, and its
  position is not among the positions whose values form the population \<^verbatim>\<open>values\<close>; the
  mean, max, min and standard deviation are computed from that population only. For a
  band in 10..14 the temperature grid is always produced.
\<close>

theorem zero_dn_excluded:
  assumes "i < length (entries dn)" and "entries dn ! i = 0"
  shows "entries (fill_zero_nan (astype_float64 dn)) ! i = NaN
       \<and> (band \<in> tir_bands \<longrightarrow> (\<exists>tb. zonal_tb dn band = Inr tb))
       \<and> (\<forall>tb. zonal_tb dn band = Inr tb \<longrightarrow>
            entries tb ! i = NaN
          \<and> i \<notin> set (valid_indices (entries tb))
          \<and> zonal_values dn band = Inr (map (\<lambda>j. entries tb ! j) (valid_indices (entries tb)))
          \<and> zonal_stats (Masked dn) band flag =
              summarise tb (map (\<lambda>j. entries tb ! j) (valid_indices (entries tb))) flag)"
proof -
  have "entries (fill_zero_nan (astype_float64 dn)) ! i = NaN"
    using assms by (simp add: fill_zero_nan_def astype_float64_def)
  moreover have "band \<in> tir_bands \<longrightarrow> (\<exists>tb. zonal_tb dn band = Inr tb)"
    by (simp add: zonal_tb_valid)
  moreover have "entries tb ! i = NaN \<and> i \<notin> set (valid_indices (entries tb))
          \<and> zonal_values dn band = Inr (map (\<lambda>j. entries tb ! j) (valid_indices (entries tb)))
          \<and> zonal_stats (Masked dn) band flag =
              summarise tb (map (\<lambda>j. entries tb ! j) (valid_indices (entries tb))) flag"
    if "zonal_tb dn band = Inr tb" for tb
    using that assms zonal_tb_zero[OF that assms]
    by (simp add: valid_indices_iff zonal_values_indices zonal_stats_masked)
  ultimately show ?thesis by blast
qed

theorem zero_dn_excluded_witness:
  "(1::nat) < length (entries \<lparr>shape = [1, 1, 3], entries = [1, 0, 1 :: int]\<rparr>)
   \<and> entries \<lparr>shape = [1, 1, 3], entries = [1, 0, 1 :: int]\<rparr> ! 1 = 0
   \<and> zonal_tb \<lparr>shape = [1, 1, 3], entries = [1, 0, 1]\<rparr> 10 =
       Inr \<lparr>shape = [3], entries = [Fin 0, NaN, Fin 0]\<rparr>
   \<and> valid_indices [Fin 0, NaN, Fin 0] = [0, 2]
   \<and> zonal_values \<lparr>shape = [1, 1, 3], entries = [1, 0, 1]\<rparr> 10 = Inr [Fin 0, Fin 0]"
  using zero_dn_excluded [of 1 "\<lparr>shape = [1, 1, 3], entries = [1, 0, 1]\<rparr>" 10 False]
  by (simp add: zonal_tb_valid tir_bands_def pixel_tb_zero pixel_tb_one valid_indices_def)

text \<open>
  C3, as the code has it. For a band in 10..14 the temperature grid is produced, and the
  mean, max, min and standard deviation that \<^verbatim>\<open>zonal_stats\<close> returns are computed from the
  values at the positions of the grid that are not NaN. A pixel whose digital number is
  below 1 and whose radiance is above \<open>- K1[band]\<close> (the 0 sentinel, and every negative
  radiance a 16-bit raster can hold) has temperature NaN and its position is not among
  them. A pixel whose digital number is 1, whose radiance is exactly 0, has temperature 0,
  its position is among them and its 0 is a value of the population.
\<close>

theorem nonpositive_radiance_pixels:
  assumes "band \<in> tir_bands" and "i < length (entries dn)"
  shows "\<exists>tb population. zonal_tb dn band = Inr tb
          \<and> population = map (\<lambda>j. entries tb ! j) (valid_indices (entries tb))
          \<and> zonal_values dn band = Inr population
          \<and> zonal_stats (Masked dn) band flag = summarise tb population flag
          \<and> (entries dn ! i < 1
               \<and> - spec_K1 band < (real_of_int (entries dn ! i) - 1) * spec_ucc band
             \<longrightarrow> entries tb ! i = NaN \<and> i \<notin> set (valid_indices (entries tb)))
          \<and> (entries dn ! i = 1
             \<longrightarrow> entries tb ! i = Fin 0 \<and> i \<in> set (valid_indices (entries tb))
                 \<and> Fin 0 \<in> set population)"
proof -
  define tb where
    "tb = \<lparr>shape = filter (\<lambda>d. d \<noteq> 1) (shape dn), entries = map (pixel_tb band) (entries dn)\<rparr>"
  define population where "population = map (\<lambda>j. entries tb ! j) (valid_indices (entries tb))"
  have tb: "zonal_tb dn band = Inr tb"
    using assms(1) unfolding tb_def by (rule zonal_tb_valid)
  have e: "entries tb ! i = pixel_tb band (entries dn ! i)" and l: "i < length (entries tb)"
    using assms(2) unfolding tb_def by simp_all
  have neg: "entries tb ! i = NaN \<and> i \<notin> set (valid_indices (entries tb))"
    if "entries dn ! i < 1"
      and "- spec_K1 band < (real_of_int (entries dn ! i) - 1) * spec_ucc band"
    using that e by (simp add: valid_indices_iff pixel_tb_negative)
  have one: "entries tb ! i = Fin 0 \<and> i \<in> set (valid_indices (entries tb))
               \<and> Fin 0 \<in> set population"
    if "entries dn ! i = 1"
  proof -
    have v: "entries tb ! i = Fin 0" using that e by (simp add: pixel_tb_one)
    then have m: "i \<in> set (valid_indices (entries tb))" using l by (simp add: valid_indices_iff)
    then have "entries tb ! i \<in> set population" unfolding population_def by simp
    then show ?thesis using v m by simp
  qed
  show ?thesis
    using tb population_def zonal_values_indices[OF tb] zonal_stats_masked[OF tb, of flag] neg one
    by (intro exI[of _ tb] exI[of _ population]) simp
qed

theorem nonpositive_radiance_pixels_witness:
  "(10::int) \<in> tir_bands
   \<and> (1::nat) < length (entries \<lparr>shape = [1, 1, 3], entries = [- 5, 1, 0 :: int]\<rparr>)
   \<and> entries \<lparr>shape = [1, 1, 3], entries = [- 5, 1, 0 :: int]\<rparr> ! 0 < 1
   \<and> - spec_K1 10 < (real_of_int (- 5) - 1) * spec_ucc 10
   \<and> entries \<lparr>shape = [1, 1, 3], entries = [- 5, 1, 0 :: int]\<rparr> ! 1 = 1
   \<and> (\<exists>tb. zonal_tb \<lparr>shape = [1, 1, 3], entries = [- 5, 1, 0]\<rparr> 10 = Inr tb
          \<and> zonal_stats (Masked \<lparr>shape = [1, 1, 3], entries = [- 5, 1, 0]\<rparr>) 10 False =
              summarise tb (map (\<lambda>j. entries tb ! j) (valid_indices (entries tb))) False
          \<and> entries tb ! 0 = NaN \<and> 0 \<notin> set (valid_indices (entries tb))
          \<and> entries tb ! 1 = Fin 0 \<and> 1 \<in> set (valid_indices (entries tb)))"
  using nonpositive_radiance_pixels
      [of 10 0 "\<lparr>shape = [1, 1, 3], entries = [- 5, 1, 0]\<rparr>" False]
    nonpositive_radiance_pixels
      [of 10 1 "\<lparr>shape = [1, 1, 3], entries = [- 5, 1, 0]\<rparr>" False]
  by (auto simp: tir_bands_def spec_K1_def spec_ucc_def)

text \<open>
  C3, as stated, fails on a grid with the digital numbers 1 and 0 in band 10: the first
  pixel has radiance 0, which is not above 0, yet its temperature 0 is the population, and
  the mean, max and min returned are that 0. It fails too at a radiance below \<open>- K1\<close>: the
  digital number -446713 in band 10 has a radiance below -3047.47, the argument of the
  logarithm is between 0 and 1, the temperature is a negative number and not NaN, the
  population is not empty and statistics are returned.
\<close>

theorem nonpositive_radiance_in_population:
  "tir_dn2rad (NdArray \<lparr>shape = [1, 1, 2], entries = [Fin 1, NaN]\<rparr>) 10 =
     Inr (NdArray \<lparr>shape = [1, 1, 2], entries = [Fin 0, NaN]\<rparr>)
   \<and> zonal_values \<lparr>shape = [1, 1, 2], entries = [1, 0]\<rparr> 10 = Inr [Fin 0]
   \<and> zonal_stats (Masked \<lparr>shape = [1, 1, 2], entries = [1, 0]\<rparr>) 10 False =
       Inr (Return4 (Fin 0) (Fin 0) (Fin 0) (Fin 0))
   \<and> (real_of_int (- 446713) - 1) * spec_ucc 10 < - spec_K1 10
   \<and> zonal_values \<lparr>shape = [1, 1, 1], entries = [- 446713]\<rparr> 10 \<noteq> Inr []
   \<and> zonal_stats (Masked \<lparr>shape = [1, 1, 1], entries = [- 446713]\<rparr>) 10 False
       \<noteq> Inr ReturnNone"
proof -
  have a: "tir_dn2rad (NdArray \<lparr>shape = [1, 1, 2], entries = [Fin 1, NaN]\<rparr>) 10 =
     Inr (NdArray \<lparr>shape = [1, 1, 2], entries = [Fin 0, NaN]\<rparr>)"
    by (simp add: tir_dn2rad_def py_getitem_def ucc_def np_sub_def)
  have b: "(10::int) \<in> tir_bands" by (simp add: tir_bands_def)
  have tb1: "zonal_tb \<lparr>shape = [1, 1, 2], entries = [1, 0]\<rparr> 10 =
      Inr \<lparr>shape = [2], entries = [Fin 0, NaN]\<rparr>"
    using b by (simp add: zonal_tb_valid pixel_tb_one pixel_tb_zero)
  have v1: "zonal_values \<lparr>shape = [1, 1, 2], entries = [1, 0]\<rparr> 10 = Inr [Fin 0]"
    using tb1 by (simp add: zonal_values_def flatten_def drop_nan_def)
  have s1: "zonal_stats (Masked \<lparr>shape = [1, 1, 2], entries = [1, 0]\<rparr>) 10 False =
       Inr (Return4 (Fin 0) (Fin 0) (Fin 0) (Fin 0))"
    using tb1
    by (simp add: zonal_stats_def summarise_def statistics_def flatten_def drop_nan_def
        np_mean_def np_sum_def np_max_def np_min_def np_std_def np_sub_def)
  have r: "(real_of_int (- 446713) - 1) * spec_ucc 10 < - spec_K1 10"
    by (simp add: spec_ucc_def spec_K1_def)
  have p: "\<not> is_nan (pixel_tb 10 (- 446713))"
    by (simp add: pixel_tb_def np_sub_def spec_ucc_def spec_K1_def spec_K2_def)
  have tb2: "zonal_tb \<lparr>shape = [1, 1, 1], entries = [- 446713]\<rparr> 10 =
      Inr \<lparr>shape = [], entries = [pixel_tb 10 (- 446713)]\<rparr>"
    using b by (simp add: zonal_tb_valid)
  have v2: "zonal_values \<lparr>shape = [1, 1, 1], entries = [- 446713]\<rparr> 10 \<noteq> Inr []"
    using tb2 p by (simp add: zonal_values_def flatten_def drop_nan_def)
  have s2: "zonal_stats (Masked \<lparr>shape = [1, 1, 1], entries = [- 446713]\<rparr>) 10 False
       \<noteq> Inr ReturnNone"
    using tb2 p
    by (simp add: zonal_stats_def summarise_def statistics_def flatten_def drop_nan_def
        np_max_def np_min_def Let_def)
  show ?thesis using a v1 s1 r v2 s2 by blast
qed

subsection \<open>The two early returns\<close>

lemma mask_crop_outside:
  assumes "zone_outside src z" and "mask_crop src z = Inr a"
  shows "list_all (\<lambda>d. d = 0) (entries a)"
proof -
  obtain r0 r1 c0 c1 where w: "clip_window src z = Some (r0, r1, c0, c1)"
    using assms(2) by (auto simp: mask_crop_def split: option.splits)
  have b: "0 \<le> r0" "r1 \<le> int (raster_height src)" "0 \<le> c0" "c1 \<le> int (raster_width src)"
    using w by (auto simp: clip_window_def Let_def split: option.splits if_splits)
  have "\<not> touches z r c" if "r0 \<le> r" "r < r1" "c0 \<le> c" "c < c1" for r c
    using that b assms(1) by (auto simp: zone_outside_def list_all_iff)
  then show ?thesis
    using assms(2) w by (auto simp: mask_crop_def list_all_iff split: if_splits)
qed

text \<open>
  C6. When the zone does not intersect the raster, so that no shape touches a pixel of it,
  \<^verbatim>\<open>zonal_stats\<close> returns \<^verbatim>\<open>None\<close> and raises nothing. There are two ways. When the extent of
  the shapes misses the raster, or there is no shape, \<^verbatim>\<open>mask\<close> raises ValueError and the
  first handler returns \<^verbatim>\<open>None\<close>, whatever the band. When the extent of the shapes overlaps
  the raster though no shape does, \<^verbatim>\<open>mask\<close> returns a grid of zeros, every pixel becomes NaN,
  the population is empty and the second handler returns \<^verbatim>\<open>None\<close>, for a band in 10..14.
\<close>

theorem no_overlap_returns_none:
  assumes "zone_outside src z"
  shows "(clip_window src z = None \<longrightarrow>
            mask_crop src z = Inl ValueError
          \<and> zonal_stats (masked_io src z) band flag = Inr ReturnNone)
       \<and> (band \<in> tir_bands \<longrightarrow>
            zonal_stats (masked_io src z) band flag = Inr ReturnNone)"
proof -
  have a: "mask_crop src z = Inl ValueError
             \<and> zonal_stats (masked_io src z) band flag = Inr ReturnNone"
    if "clip_window src z = None"
    using that by (simp add: masked_io_def mask_crop_def zonal_stats_def)
  have "zonal_stats (masked_io src z) band flag = Inr ReturnNone" if band: "band \<in> tir_bands"
  proof (cases "mask_crop src z")
    case (Inl e)
    then have "clip_window src z = None"
      by (auto simp: mask_crop_def split: option.splits)
    then show ?thesis using a by simp
  next
    case (Inr dn)
    obtain tb where tb: "zonal_tb dn band = Inr tb"
      using band by (simp add: zonal_tb_valid)
    show ?thesis
      using Inr
        empty_population_none[OF tb all_zero_population[OF tb mask_crop_outside[OF assms Inr]]]
      by (simp add: masked_io_def)
  qed
  then show ?thesis using a by blast
qed

text \<open>
  A raster of two rows and two columns; a square zone far from it, and a zone in the shape
  of an L around its lower right corner, whose extent covers the pixel of row 1 and
  column 1 while its shapes touch row 3 and column 3 only.
\<close>

theorem no_overlap_returns_none_witness:
  "zone_outside
      \<lparr>raster_count = 1, raster_height = 2, raster_width = 2, raster_dn = (\<lambda>b r c. 200)\<rparr>
      \<lparr>zone_window = Some (5, 7, 5, 7),
       touches = (\<lambda>r c. 5 \<le> r \<and> r < 7 \<and> 5 \<le> c \<and> c < 7)\<rparr>
   \<and> clip_window
      \<lparr>raster_count = 1, raster_height = 2, raster_width = 2, raster_dn = (\<lambda>b r c. 200)\<rparr>
      \<lparr>zone_window = Some (5, 7, 5, 7),
       touches = (\<lambda>r c. 5 \<le> r \<and> r < 7 \<and> 5 \<le> c \<and> c < 7)\<rparr> = None
   \<and> zonal_stats (masked_io
      \<lparr>raster_count = 1, raster_height = 2, raster_width = 2, raster_dn = (\<lambda>b r c. 200)\<rparr>
      \<lparr>zone_window = Some (5, 7, 5, 7),
       touches = (\<lambda>r c. 5 \<le> r \<and> r < 7 \<and> 5 \<le> c \<and> c < 7)\<rparr>) 15 False = Inr ReturnNone
   \<and> zone_outside
      \<lparr>raster_count = 1, raster_height = 2, raster_width = 2, raster_dn = (\<lambda>b r c. 200)\<rparr>
      \<lparr>zone_window = Some (1, 4, 1, 4),
       touches = (\<lambda>r c. (r = 3 \<and> 1 \<le> c \<and> c < 4) \<or> (c = 3 \<and> 1 \<le> r \<and> r < 4))\<rparr>
   \<and> mask_crop
      \<lparr>raster_count = 1, raster_height = 2, raster_width = 2, raster_dn = (\<lambda>b r c. 200)\<rparr>
      \<lparr>zone_window = Some (1, 4, 1, 4),
       touches = (\<lambda>r c. (r = 3 \<and> 1 \<le> c \<and> c < 4) \<or> (c = 3 \<and> 1 \<le> r \<and> r < 4))\<rparr>
       = Inr \<lparr>shape = [1, 1, 1], entries = [0]\<rparr>
   \<and> (10::int) \<in> tir_bands
   \<and> zonal_stats (masked_io
      \<lparr>raster_count = 1, raster_height = 2, raster_width = 2, raster_dn = (\<lambda>b r c. 200)\<rparr>
      \<lparr>zone_window = Some (1, 4, 1, 4),
       touches = (\<lambda>r c. (r = 3 \<and> 1 \<le> c \<and> c < 4) \<or> (c = 3 \<and> 1 \<le> r \<and> r < 4))\<rparr>)
      10 False = Inr ReturnNone"
  using no_overlap_returns_none
      [of "\<lparr>raster_count = 1, raster_height = 2, raster_width = 2, raster_dn = (\<lambda>b r c. 200)\<rparr>"
          "\<lparr>zone_window = Some (5, 7, 5, 7),
            touches = (\<lambda>r c. 5 \<le> r \<and> r < 7 \<and> 5 \<le> c \<and> c < 7)\<rparr>" 15 False]
    no_overlap_returns_none
      [of "\<lparr>raster_count = 1, raster_height = 2, raster_width = 2, raster_dn = (\<lambda>b r c. 200)\<rparr>"
          "\<lparr>zone_window = Some (1, 4, 1, 4),
            touches = (\<lambda>r c. (r = 3 \<and> 1 \<le> c \<and> c < 4) \<or> (c = 3 \<and> 1 \<le> r \<and> r < 4))\<rparr>"
          10 False]
  by (simp add: zone_outside_def clip_window_def mask_crop_def tir_bands_def upto.simps)

text \<open>
  C7. When the masking succeeds and the population is empty, \<^verbatim>\<open>zonal_stats\<close> returns
  \<^verbatim>\<open>None\<close>, as it does without overlap: neither statistics nor an exception. In particular
  it does so, for a band in 10..14, on a clipped grid that holds digital numbers 0 only.
\<close>

theorem empty_zone_returns_none:
  "(zonal_values dn band = Inr [] \<longrightarrow> zonal_stats (Masked dn) band flag = Inr ReturnNone)
   \<and> (band \<in> tir_bands \<and> list_all (\<lambda>d. d = 0) (entries dn)
        \<longrightarrow> zonal_stats (Masked dn) band flag = Inr ReturnNone)"
proof -
  have a: "zonal_stats (Masked dn) band flag = Inr ReturnNone" if "zonal_values dn band = Inr []"
    using that
    by (auto simp: zonal_values_def zonal_stats_def summarise_def statistics_def np_max_def
        and_then_def split: sum.splits)
  have "zonal_values dn band = Inr []"
    if "band \<in> tir_bands" "list_all (\<lambda>d. d = 0) (entries dn)"
    using that
    by (auto simp: zonal_values_def zonal_tb_valid flatten_def drop_nan_def list_all_iff
        filter_empty_conv pixel_tb_zero)
  then show ?thesis using a by blast
qed

theorem empty_zone_returns_none_witness:
  "zonal_values \<lparr>shape = [1, 2, 2], entries = [0, 0, 0, 0]\<rparr> 12 = Inr []
   \<and> (12::int) \<in> tir_bands \<and> list_all (\<lambda>d. d = 0) [0, 0, 0, 0 :: int]
   \<and> zonal_stats (Masked \<lparr>shape = [1, 2, 2], entries = [0, 0, 0, 0]\<rparr>) 12 True = Inr ReturnNone"
  using empty_zone_returns_none [of "\<lparr>shape = [1, 2, 2], entries = [0, 0, 0, 0]\<rparr>" 12 True]
  by (simp add: tir_bands_def zonal_values_def zonal_tb_valid flatten_def drop_nan_def
      pixel_tb_zero)

subsection \<open>The grid returned on request\<close>

text \<open>
  What holds of the fifth value whenever \<^verbatim>\<open>zonal_stats\<close> returns five: it is the temperature
  grid, its shape is the clipped shape without the axes of length one, it has an entry for
  each pixel, and the entry of a pixel whose digital number is 0 is NaN.
\<close>

lemma returned_grid_keeps_nan:
  assumes "zonal_stats (Masked dn) band True = Inr r" and "r \<noteq> ReturnNone"
  shows "\<exists>m mx mn sd tb. r = Return5 m mx mn sd tb \<and> zonal_tb dn band = Inr tb
           \<and> shape tb = filter (\<lambda>d. d \<noteq> 1) (shape dn)
           \<and> length (entries tb) = length (entries dn)
           \<and> (\<forall>i < length (entries dn). entries dn ! i = 0 \<longrightarrow> entries tb ! i = NaN)"
proof -
  obtain tb where tb: "zonal_tb dn band = Inr tb"
    using assms(1) by (cases "zonal_tb dn band") (simp_all add: zonal_stats_def)
  have sh: "shape tb = filter (\<lambda>d. d \<noteq> 1) (shape dn)"
    using tb
    by (auto simp: zonal_tb_def tir_dn2rad_def tir_rad2tb_def and_then_def astype_float64_def
        fill_zero_nan_def squeeze_def split: sum.splits)
  obtain m mx mn sd where "r = Return5 m mx mn sd tb"
    using assms tb
    by (auto simp: zonal_stats_def summarise_def split: sum.splits pyerror.splits prod.splits)
  then show ?thesis
    using tb sh zonal_tb_length[OF tb] zonal_tb_zero[OF tb] by blast
qed

text \<open>
  C10, at a clipped window of one row and two columns (shape (1, 1, 2)) with the digital
  numbers 200 and 0, band 10 and \<^verbatim>\<open>return_masked_array=True\<close>: the call succeeds and the
  fifth value keeps the NaN of the second pixel, but \<^verbatim>\<open>squeeze()\<close> has removed the row axis
  together with the band axis, and the grid returned has shape (2,): one dimension, not
  two.
\<close>

theorem single_row_window_returns_1d:
  "zonal_stats (Masked \<lparr>shape = [1, 1, 2], entries = [200, 0]\<rparr>) 10 True =
     Inr (Return5 (Fin (spec_tb 10 (199 * spec_ucc 10))) (Fin (spec_tb 10 (199 * spec_ucc 10)))
            (Fin (spec_tb 10 (199 * spec_ucc 10))) (Fin 0)
            \<lparr>shape = [2], entries = [Fin (spec_tb 10 (199 * spec_ucc 10)), NaN]\<rparr>)
   \<and> length (shape \<lparr>shape = [2::nat], entries = [Fin (spec_tb 10 (199 * spec_ucc 10)), NaN]\<rparr>)
       = 1"
proof -
  have "(10::int) \<in> tir_bands" by (simp add: tir_bands_def)
  then have "zonal_tb \<lparr>shape = [1, 1, 2], entries = [200, 0]\<rparr> 10 =
      Inr \<lparr>shape = [2], entries = [Fin (spec_tb 10 (199 * spec_ucc 10)), NaN]\<rparr>"
    using pixel_tb_positive[of 200 10] by (simp add: zonal_tb_valid pixel_tb_zero)
  then show ?thesis
    by (simp add: zonal_stats_def summarise_def statistics_def flatten_def drop_nan_def
        np_mean_def np_sum_def np_max_def np_min_def np_std_def np_sub_def)
qed

subsection \<open>A band outside the table\<close>

lemma getitem_outside:
  "band < 5 \<or> 14 < band \<Longrightarrow> length xs = 5 \<Longrightarrow> py_getitem xs (band - 10) = Inl IndexError"
  by (auto simp: py_getitem_def)

lemma getitem_wraps:
  "5 \<le> band \<Longrightarrow> band \<le> 9 \<Longrightarrow> length xs = 5
     \<Longrightarrow> py_getitem xs (band - 10) = py_getitem xs (band + 5 - 10)"
  by (auto simp: py_getitem_def algebra_simps)

text \<open>
  C4, as the code has it. Neither function checks the band. For a band below 5 or above 14
  both raise IndexError, from the list lookup. For a band from 5 to 9 the index
  \<open>band - 10\<close> is negative and counts from the end of the list: both functions return
  what they return for the band five higher.
\<close>

theorem band_outside_table:
  "(band < 5 \<or> 14 < band \<longrightarrow>
      tir_dn2rad v band = Inl IndexError \<and> tir_rad2tb v band = Inl IndexError)
   \<and> (5 \<le> band \<and> band \<le> 9 \<longrightarrow>
      tir_dn2rad v band = tir_dn2rad v (band + 5) \<and> tir_rad2tb v band = tir_rad2tb v (band + 5))"
proof -
  have l: "length ucc = 5" "length k1 = 5" "length k2 = 5"
    by (simp_all add: ucc_def k1_def k2_def)
  show ?thesis
    using l by (simp add: tir_dn2rad_def tir_rad2tb_def getitem_outside getitem_wraps)
qed

theorem band_outside_table_witness:
  "((15::int) < 5 \<or> (14::int) < 15)
   \<and> tir_dn2rad (PyFloat (Fin 2)) 15 = Inl IndexError
   \<and> tir_rad2tb (PyFloat (Fin 2)) 15 = Inl IndexError
   \<and> (5::int) \<le> 9 \<and> (9::int) \<le> 9
   \<and> tir_dn2rad (PyFloat (Fin 2)) 9 = tir_dn2rad (PyFloat (Fin 2)) 14
   \<and> tir_rad2tb (PyFloat (Fin 2)) 9 = tir_rad2tb (PyFloat (Fin 2)) 14"
  using band_outside_table [of 15 "PyFloat (Fin 2)"] band_outside_table [of 9 "PyFloat (Fin 2)"]
  by simp

text \<open>
  C4, as stated, fails at band 9, which is outside 10..14: both functions return a value,
  computed with the last entries of the tables, those of band 14.
\<close>

theorem band_nine_returns_value:
  "(9::int) \<notin> tir_bands
   \<and> tir_dn2rad (PyFloat (Fin 2)) 9 = Inr (PyFloat (Fin (5.225 / 10 ^ 3)))
   \<and> tir_rad2tb (PyFloat (Fin 1)) 9 = Inr (NpFloat64 (Fin (1274.49 / ln (649.60 / 1 + 1))))"
  by (simp add: tir_bands_def tir_dn2rad_def tir_rad2tb_def py_getitem_def ucc_def k1_def k2_def
      np_sub_def)

subsection \<open>The extension check of the filename scan\<close>

lemma timestamp_string_no_assert: "timestamp_string fpath \<noteq> Inl (AssertionError m)"
  by (auto simp: timestamp_string_def py_getitem_def and_then_def Let_def split: sum.splits)

lemma read_timestamps_no_assert: "read_timestamps ts files \<noteq> Inl (AssertionError m)"
proof (induction files)
  case Nil
  then show ?case by simp
next
  case (Cons fpath rest)
  then show ?case
    using timestamp_string_no_assert[of fpath m]
    by (auto simp: and_then_def split: sum.splits option.splits)
qed

text \<open>
  C9. For an extension other than the strings \<open>hdf\<close> and \<open>tif\<close>, \<^verbatim>\<open>aster_timestamps\<close> raises
  AssertionError with the message "File extension must be either hdf or tif" and has
  scanned nothing: no pattern was given to \<^verbatim>\<open>glob.glob\<close>. For \<open>hdf\<close> and for \<open>tif\<close> the
  assertion passes: the directory is scanned, once, with the pattern
  \<open>directory/**/*.ext\<close>, and whatever the call then does, it raises no AssertionError.
\<close>

theorem extension_assertion:
  "(ext \<noteq> ''hdf'' \<and> ext \<noteq> ''tif'' \<longrightarrow>
      aster_timestamps lib directory ext =
        ([], Inl (AssertionError ''File extension must be either hdf or tif'')))
   \<and> (ext = ''hdf'' \<or> ext = ''tif'' \<longrightarrow>
      fst (aster_timestamps lib directory ext) = [directory @ ''/**/*.'' @ ext]
      \<and> (\<forall>m. snd (aster_timestamps lib directory ext) \<noteq> Inl (AssertionError m)))"
proof -
  have "snd (aster_timestamps lib directory ext) \<noteq> Inl (AssertionError m)"
    if "ext = ''hdf'' \<or> ext = ''tif''" for m
    using that
      read_timestamps_no_assert[of "Timestamp lib" "glob lib (directory @ ''/**/*.'' @ ext)" m]
    by (auto simp: aster_timestamps_def Let_def and_then_def split: sum.splits)
  then show ?thesis by (auto simp: aster_timestamps_def Let_def)
qed

theorem extension_assertion_witness:
  "''HDF'' \<noteq> ''hdf'' \<and> ''HDF'' \<noteq> ''tif''
   \<and> aster_timestamps
        \<lparr>glob = (\<lambda>p. [''data/AST_L1T_00304212017185107_20170422082541_26960.tif'']),
         Timestamp = Some, sort_values = (\<lambda>rows. rows)\<rparr> ''data'' ''HDF''
       = ([], Inl (AssertionError ''File extension must be either hdf or tif''))
   \<and> (''tif'' = ''hdf'' \<or> ''tif'' = ''tif'')
   \<and> aster_timestamps
        \<lparr>glob = (\<lambda>p. [''data/AST_L1T_00304212017185107_20170422082541_26960.tif'']),
         Timestamp = Some, sort_values = (\<lambda>rows. rows)\<rparr> ''data'' ''tif''
       = ([''data/**/*.tif''],
          Inr [(''2017-04-21 18:51:07'',
                ''data/AST_L1T_00304212017185107_20170422082541_26960.tif'')])"
  using extension_assertion
    [of "''HDF''" "\<lparr>glob = (\<lambda>p. [''data/AST_L1T_00304212017185107_20170422082541_26960.tif'']),
         Timestamp = Some, sort_values = (\<lambda>rows. rows)\<rparr>" "''data''"]
    extension_assertion
    [of "''tif''" "\<lparr>glob = (\<lambda>p. [''data/AST_L1T_00304212017185107_20170422082541_26960.tif'']),
         Timestamp = Some, sort_values = (\<lambda>rows. rows)\<rparr>" "''data''"]
  by (simp add: aster_timestamps_def timestamp_string_def py_getitem_def py_slice_def)

subsection \<open>The order of the temperatures in float64\<close>

lemma getitem_map_k1:
  "band \<in> tir_bands \<Longrightarrow> py_getitem (map f k1) (band - 10) = Inr (f (spec_K1 band))"
  by (auto simp: tir_bands_def py_getitem_def k1_def spec_K1_def)

lemma getitem_map_k2:
  "band \<in> tir_bands \<Longrightarrow> py_getitem (map f k2) (band - 10) = Inr (f (spec_K2 band))"
  by (auto simp: tir_bands_def py_getitem_def k2_def spec_K2_def)

lemma spec_K1_ge_one: "1 \<le> spec_K1 b"
  by (simp add: spec_K1_def)

lemma spec_K2_ge_one: "1 \<le> spec_K2 b"
  by (simp add: spec_K2_def)

lemma float64_overflow_gt: "1 < float64_overflow"
proof -
  have "(2::real) ^ 970 * 2 \<le> 2 ^ 970 * 2 ^ 54" by simp
  then have "(2::real) ^ 971 \<le> 2 ^ 1024" by (simp add: power_add[symmetric])
  moreover have "(1::real) \<le> 2 ^ 970" by simp
  ultimately show ?thesis unfolding float64_overflow_def by (simp add: power_add[symmetric])
qed

text \<open>Each operation of the expression keeps or reverses the order of float64 values.\<close>

lemma np_le_to_float64:
  assumes "mono (rnd fp)" and "np_le s t"
  shows "np_le (to_float64 fp s) (to_float64 fp t)"
proof (cases s)
  case NaN
  then show ?thesis using assms by simp
next
  case PInf
  then show ?thesis using assms by (cases t) simp_all
next
  case NInf
  then show ?thesis
    using assms float64_overflow_gt by (cases t) (auto simp: inf_signed_def)
next
  case (Fin x)
  show ?thesis
  proof (cases t)
    case (Fin y)
    then have "x \<le> y" using assms \<open>s = Fin x\<close> by simp
    then have "rnd fp x \<le> rnd fp y" using assms(1) by (simp add: monoD)
    then show ?thesis
      using Fin \<open>s = Fin x\<close> \<open>x \<le> y\<close> float64_overflow_gt by (auto simp: inf_signed_def)
  qed (use assms Fin float64_overflow_gt in \<open>auto simp: inf_signed_def\<close>)
qed

lemma np_le_add_one: "np_le s t \<Longrightarrow> np_le (np_add s (Fin 1)) (np_add t (Fin 1))"
  by (cases s; cases t) simp_all

lemma np_le_log_float64:
  assumes "mono (rnd_log fp)" and "rnd_log fp 0 = 0" and "np_le (Fin 1) s" and "np_le s t"
  shows "np_le (log_float64 fp s) (log_float64 fp t) \<and> np_le (Fin 0) (log_float64 fp s)"
proof (cases s)
  case (Fin x)
  then have x: "1 \<le> x" using assms(3) by simp
  then have "0 \<le> ln x" by simp
  then have lx: "0 \<le> rnd_log fp (ln x)"
    using assms(1,2) monoD[of "rnd_log fp" 0 "ln x"] by simp
  show ?thesis
  proof (cases t)
    case (Fin y)
    then have "x \<le> y" using assms(4) \<open>s = Fin x\<close> by simp
    then have "ln x \<le> ln y" using x by simp
    then have "rnd_log fp (ln x) \<le> rnd_log fp (ln y)" using assms(1) by (simp add: monoD)
    then show ?thesis
      using Fin \<open>s = Fin x\<close> x \<open>x \<le> y\<close> lx by (simp add: log_float64_def)
  qed (use assms Fin x lx in \<open>simp_all add: log_float64_def\<close>)
next
  case PInf
  then show ?thesis using assms by (cases t) (simp_all add: log_float64_def)
qed (use assms in simp_all)

lemma np_le_div_antitone:
  assumes "0 < c" and "np_le (Fin 0) s" and "np_le s t"
  shows "np_le (np_div (Fin c) t) (np_div (Fin c) s) \<and> np_le (Fin 0) (np_div (Fin c) t)"
proof (cases s)
  case (Fin a)
  then have a: "0 \<le> a" using assms(2) by simp
  show ?thesis
  proof (cases t)
    case (Fin b)
    then have "a \<le> b" using assms(3) \<open>s = Fin a\<close> by simp
    then show ?thesis
      using Fin \<open>s = Fin a\<close> a assms(1) by (auto simp: inf_signed_def frac_le)
  qed (use assms Fin a in \<open>auto simp: inf_signed_def\<close>)
next
  case PInf
  then show ?thesis using assms by (cases t) simp_all
qed (use assms in simp_all)

lemma tir_rad2tb_f64_scalar:
  assumes "band \<in> tir_bands" and "r \<noteq> 0"
  shows "tir_rad2tb_f64 fp (PyFloat (Fin r)) band =
     Inr (NpFloat64 (to_float64 fp (np_div (Fin (rnd fp (spec_K2 band)))
       (log_float64 fp (to_float64 fp (np_add
          (to_float64 fp (np_div (Fin (rnd fp (spec_K1 band))) (Fin r))) (Fin 1)))))))"
  using assms by (simp add: tir_rad2tb_f64_def getitem_map_k1 getitem_map_k2)

text \<open>
  C8, as the code has it. For a band in 10..14 and \<open>0 < rad1 < rad2\<close>, both calls of
  \<^verbatim>\<open>tir_rad2tb\<close> return a float64 that is not NaN and the first is below or equal to the
  second; this holds for every rounding of the arithmetic and of \<^verbatim>\<open>np.log\<close> that keeps the
  order and keeps 0 (and, for the arithmetic, 1), as round-to-nearest does. The two can be
  equal: whenever \<open>K1[band] / rad2\<close> overflows, both results are 0. It is the real-valued
  formula \<open>K2[band] / ln(K1[band]/rad + 1)\<close> that is strictly increasing.
\<close>

theorem tir_rad2tb_nondecreasing:
  assumes "band \<in> tir_bands"
    and "mono (rnd fp)" and "rnd fp 0 = 0" and "rnd fp 1 = 1"
    and "mono (rnd_log fp)" and "rnd_log fp 0 = 0"
    and "0 < rad1" and "rad1 < rad2"
  shows "(\<exists>t1 t2. tir_rad2tb_f64 fp (PyFloat (Fin rad1)) band = Inr (NpFloat64 t1)
               \<and> tir_rad2tb_f64 fp (PyFloat (Fin rad2)) band = Inr (NpFloat64 t2)
               \<and> np_le t1 t2
               \<and> (float64_overflow \<le> rnd fp (spec_K1 band) / rad2
                    \<longrightarrow> t1 = Fin 0 \<and> t2 = Fin 0))
         \<and> spec_tb band rad1 < spec_tb band rad2"
proof -
  define c1 where "c1 = rnd fp (spec_K1 band)"
  define c2 where "c2 = rnd fp (spec_K2 band)"
  have c1: "0 < c1"
    using monoD[OF assms(2) spec_K1_ge_one[of band]] assms(4) unfolding c1_def by simp
  have c2: "0 < c2"
    using monoD[OF assms(2) spec_K2_ge_one[of band]] assms(4) unfolding c2_def by simp
  define q where "q = (\<lambda>r. to_float64 fp (np_div (Fin c1) (Fin r)))"
  define a where "a = (\<lambda>r. to_float64 fp (np_add (q r) (Fin 1)))"
  define l where "l = (\<lambda>r. log_float64 fp (a r))"
  define t where "t = (\<lambda>r. to_float64 fp (np_div (Fin c2) (l r)))"
  have r2: "0 < rad2" using assms(7,8) by simp
  have z: "to_float64 fp (Fin 0) = Fin 0" using float64_overflow_gt assms(3) by simp
  have o: "to_float64 fp (Fin 1) = Fin 1" using float64_overflow_gt assms(4) by simp
  have e1: "tir_rad2tb_f64 fp (PyFloat (Fin rad1)) band = Inr (NpFloat64 (t rad1))"
    using assms(1,7) unfolding t_def l_def a_def q_def c1_def c2_def
    by (simp add: tir_rad2tb_f64_scalar)
  have e2: "tir_rad2tb_f64 fp (PyFloat (Fin rad2)) band = Inr (NpFloat64 (t rad2))"
    using assms(1) r2 unfolding t_def l_def a_def q_def c1_def c2_def
    by (simp add: tir_rad2tb_f64_scalar)
  have "np_le (Fin rad1) (Fin rad2)" "np_le (Fin 0) (Fin rad1)" using assms(7,8) by simp_all
  then have d: "np_le (np_div (Fin c1) (Fin rad2)) (np_div (Fin c1) (Fin rad1))"
      "np_le (Fin 0) (np_div (Fin c1) (Fin rad2))"
    using np_le_div_antitone[OF c1] by blast+
  have q: "np_le (q rad2) (q rad1)" "np_le (Fin 0) (q rad2)"
    using np_le_to_float64[OF assms(2) d(1)] np_le_to_float64[OF assms(2) d(2)] z
    unfolding q_def by simp_all
  have a: "np_le (a rad2) (a rad1)" "np_le (Fin 1) (a rad2)"
    using np_le_to_float64[OF assms(2) np_le_add_one[OF q(1)]]
      np_le_to_float64[OF assms(2) np_le_add_one[OF q(2)]] o
    unfolding a_def by simp_all
  have l: "np_le (l rad2) (l rad1)" "np_le (Fin 0) (l rad2)"
    using np_le_log_float64[OF assms(5,6) a(2) a(1)] unfolding l_def by simp_all
  have "np_le (np_div (Fin c2) (l rad1)) (np_div (Fin c2) (l rad2))"
    using np_le_div_antitone[OF c2 l(2) l(1)] by simp
  then have le: "np_le (t rad1) (t rad2)"
    unfolding t_def by (rule np_le_to_float64[OF assms(2)])
  have ov: "t rad1 = Fin 0 \<and> t rad2 = Fin 0" if "float64_overflow \<le> c1 / rad2"
  proof -
    have "c1 / rad2 \<le> c1 / rad1" using assms(7,8) c1 by (simp add: frac_le)
    then have "float64_overflow \<le> c1 / rad1" using that by simp
    moreover have "0 < c1 / rad1" "0 < c1 / rad2" using c1 assms(7) r2 by simp_all
    ultimately have "q rad1 = PInf" "q rad2 = PInf"
      using that assms(7) r2 c1 unfolding q_def by (simp_all add: inf_signed_def)
    then show ?thesis using z unfolding t_def l_def a_def by (simp add: log_float64_def)
  qed
  have "spec_tb band rad1 < spec_tb band rad2"
    using assms(7,8) by (rule spec_tb_mono)
  then show ?thesis using e1 e2 le ov unfolding c1_def by blast
qed

theorem tir_rad2tb_nondecreasing_witness:
  "(10::int) \<in> tir_bands
   \<and> mono (rnd exact_rounding) \<and> rnd exact_rounding 0 = 0 \<and> rnd exact_rounding 1 = 1
   \<and> mono (rnd_log exact_rounding) \<and> rnd_log exact_rounding 0 = 0
   \<and> (0::real) < 1 / 10 ^ 306 \<and> (1::real) / 10 ^ 306 < 2 / 10 ^ 306
   \<and> float64_overflow \<le> rnd exact_rounding (spec_K1 10) / (2 / 10 ^ 306)
   \<and> (\<exists>t1 t2. tir_rad2tb_f64 exact_rounding (PyFloat (Fin (1 / 10 ^ 306))) 10 = Inr (NpFloat64 t1)
            \<and> tir_rad2tb_f64 exact_rounding (PyFloat (Fin (2 / 10 ^ 306))) 10 = Inr (NpFloat64 t2)
            \<and> np_le t1 t2 \<and> t1 = Fin 0 \<and> t2 = Fin 0)
   \<and> spec_tb 10 (1 / 10 ^ 306) < spec_tb 10 (2 / 10 ^ 306)"
proof -
  have b: "(10::int) \<in> tir_bands" by (simp add: tir_bands_def)
  have m: "mono (rnd exact_rounding)" "mono (rnd_log exact_rounding)"
    by (simp_all add: exact_rounding_def mono_def)
  have e: "rnd exact_rounding 0 = 0" "rnd exact_rounding 1 = 1" "rnd_log exact_rounding 0 = 0"
    by (simp_all add: exact_rounding_def)
  have h: "(0::real) < 1 / 10 ^ 306" "(1::real) / 10 ^ 306 < 2 / 10 ^ 306"
    by simp_all
  have ov: "float64_overflow \<le> rnd exact_rounding (spec_K1 10) / (2 / 10 ^ 306)"
    by (simp add: float64_overflow_def exact_rounding_def spec_K1_def)
  show ?thesis
    using tir_rad2tb_nondecreasing [OF b m(1) e(1) e(2) m(2) e(3) h] b m e h ov
    by blast
qed

text \<open>
  C8, as stated, fails in band 10 at the radiances 1e-306 and 2e-306: \<open>3047.47 / rad\<close>
  overflows to plus infinity at both, so does its logarithm, and \<open>1736.18\<close> over it is 0
  at both. No result on the way is rounded, so the rounding does not matter.
\<close>

theorem tiny_radiances_tie:
  "(0::real) < 1 / 10 ^ 306 \<and> (1::real) / 10 ^ 306 < 2 / 10 ^ 306
   \<and> tir_rad2tb_f64 exact_rounding (PyFloat (Fin (1 / 10 ^ 306))) 10 = Inr (NpFloat64 (Fin 0))
   \<and> tir_rad2tb_f64 exact_rounding (PyFloat (Fin (2 / 10 ^ 306))) 10 = Inr (NpFloat64 (Fin 0))"
  by (simp add: tir_rad2tb_f64_def py_getitem_def k1_def k2_def exact_rounding_def
      float64_overflow_def inf_signed_def log_float64_def)

end
